theory Spec2Isabelle
  imports Main "HOL-Library.Signed_Division"
begin

section \<open>The study timer of \<^verbatim>\<open>src/components/Navigation.tsx\<close>\<close>

text \<open>
  The \<^verbatim>\<open>Timer\<close> component is a React function component. Its state variables
  (\<^verbatim>\<open>useState\<close>), its refs (\<^verbatim>\<open>useRef\<close>), the browser's \<^verbatim>\<open>localStorage\<close> and the list of
  write requests sent to the remote store are the fields of one record, \<open>Timer\<close>.

  Every handler and effect body of the component is one function below. A handler reads
  the state variables of the render that created it: that render is the argument \<open>c\<close>
  (for closure). It reads and writes refs and queues state updates on the live component:
  that is the argument \<open>e\<close>. A state update \<^verbatim>\<open>setX(v)\<close> is the record update of \<open>e\<close>; an
  updater \<^verbatim>\<open>setX(f)\<close> applies \<open>f\<close> to the pending value in \<open>e\<close>, as React's update queue
  does. \<^verbatim>\<open>Date.now()\<close> is the argument \<open>now\<close> (epoch milliseconds). Numbers are integers.
\<close>

subsection \<open>Preferences and the configuration derived from them\<close>

datatype Phase = focus | shortBreak | longBreak

datatype SessionType = study | review | practice

datatype StudyMethod = pomodoro | custom

record PomodoroSettings =
  ps_focusTime :: int
  ps_shortBreak :: int
  ps_longBreak :: int
  ps_sessionsUntilLongBreak :: int

record UserPreferences =
  subjects :: "string list"
  studyMethod :: StudyMethod
  pomodoroSettings :: PomodoroSettings

text \<open>\<^verbatim>\<open>const clamp = (value, min, max) => Math.max(min, Math.min(max, value))\<close>\<close>

definition clamp :: "int \<Rightarrow> int \<Rightarrow> int \<Rightarrow> int" where
  "clamp v lo hi = max lo (min hi v)"

text \<open>\<^verbatim>\<open>x || d\<close> on numbers: \<open>0\<close> is falsy.\<close>

definition orElse :: "int \<Rightarrow> int \<Rightarrow> int" where
  "orElse x d = (if x = 0 then d else x)"

text \<open>A \<^verbatim>\<open>number | null\<close> used as a condition: \<^verbatim>\<open>null\<close> and \<open>0\<close> are falsy.\<close>

fun truthy :: "int option \<Rightarrow> bool" where
  "truthy None = False"
| "truthy (Some a) = (a \<noteq> 0)"

text \<open>A \<^verbatim>\<open>number | null\<close> used in arithmetic: \<^verbatim>\<open>null\<close> counts as \<open>0\<close>.\<close>

fun toNumber :: "int option \<Rightarrow> int" where
  "toNumber None = 0"
| "toNumber (Some a) = a"

definition hasSubjects :: "UserPreferences \<Rightarrow> bool" where
  "hasSubjects prefs = (subjects prefs \<noteq> [])"

definition defaultSubjectId :: "UserPreferences \<Rightarrow> string" where
  "defaultSubjectId prefs = (case subjects prefs of [] \<Rightarrow> [] | s # _ \<Rightarrow> s)"

definition isPomodoro :: "UserPreferences \<Rightarrow> bool" where
  "isPomodoro prefs = (studyMethod prefs = pomodoro)"

definition focusMinutes :: "UserPreferences \<Rightarrow> int" where
  "focusMinutes prefs = clamp (orElse (ps_focusTime (pomodoroSettings prefs)) 25) 1 180"

definition shortBreakMinutes :: "UserPreferences \<Rightarrow> int" where
  "shortBreakMinutes prefs = clamp (orElse (ps_shortBreak (pomodoroSettings prefs)) 5) 1 60"

definition longBreakMinutes :: "UserPreferences \<Rightarrow> int" where
  "longBreakMinutes prefs = clamp (orElse (ps_longBreak (pomodoroSettings prefs)) 15) 1 120"

definition sessionsUntilLongBreak :: "UserPreferences \<Rightarrow> int" where
  "sessionsUntilLongBreak prefs =
     clamp (orElse (ps_sessionsUntilLongBreak (pomodoroSettings prefs)) 4) 1 12"

subsection \<open>The persisted snapshot, the remote store and the component\<close>

text \<open>
  \<^verbatim>\<open>TimerPersistedState\<close>. The restore effect reads \<^verbatim>\<open>remainingSeconds\<close> with \<^verbatim>\<open>??\<close>, so the
  field may be missing; \<^verbatim>\<open>phaseStartEpochMs\<close> is \<^verbatim>\<open>number | null\<close>.
\<close>

record TimerPersistedState =
  saved_phase :: Phase
  saved_isRunning :: bool
  saved_customMinutes :: int
  saved_selectedSubjectId :: string
  saved_sessionTitle :: string
  saved_sessionType :: SessionType
  saved_completedFocusCount :: int
  saved_phaseDurationSeconds :: int
  saved_remainingSeconds :: "int option"
  saved_phaseStartEpochMs :: "int option"
  saved_isPomodoro :: bool

text \<open>
  The write requests of \<^verbatim>\<open>logCompletedFocusSession\<close>: the insert into
  \<^verbatim>\<open>pomodoro_sessions\<close> and the update of, or insert into, \<^verbatim>\<open>rewards\<close>. Start and end
  time are kept as epoch milliseconds (the source formats them as \<^verbatim>\<open>HH:MM\<close>).
\<close>

datatype Request =
    InsertSession string string string int string int int SessionType
  | UpdateRewards string int int string
  | InsertRewards string int int string

fun isSessionInsert :: "Request \<Rightarrow> bool" where
  "isSessionInsert (InsertSession u s t d day st en ty) = True"
| "isSessionInsert (UpdateRewards u c l day) = False"
| "isSessionInsert (InsertRewards u c l day) = False"

text \<open>An awaited call of the remote client resolves with a value or throws.\<close>

datatype 'a awaited = Resolves 'a | Throws

record RewardsRow =
  row_current :: "int option"
  row_longest :: "int option"
  row_last_study_date :: "string option"

text \<open>
  What the remote client and the calendar answer during one run of
  \<^verbatim>\<open>logCompletedFocusSession\<close>: \<^verbatim>\<open>auth.getUser()\<close> (the user id, if any), the session
  insert, the select on \<^verbatim>\<open>rewards\<close>, the write to \<^verbatim>\<open>rewards\<close>, today's ISO date
  (\<^verbatim>\<open>getTodayIsoDate()\<close>) and yesterday's. A write that resolves carries whether the store
  accepted it (\<open>False\<close>: the client returned an error object, which the source never
  inspects); a select that fails that way resolves with no row.
\<close>

record Supabase =
  authUserId :: "string option awaited"
  sessionInsert :: "bool awaited"
  rewardsSelect :: "RewardsRow option awaited"
  rewardsWrite :: "bool awaited"
  todayIso :: string
  yesterdayIso :: string

text \<open>
  The component: state variables, then the two refs (\<^verbatim>\<open>focusStartTimeRef\<close>,
  \<^verbatim>\<open>phaseStartEpochMsRef\<close>), then the world it writes to.
\<close>

record Timer =
  userId :: "string option"
  selectedSubjectId :: string
  sessionTitle :: string
  sessionType :: SessionType
  phase :: Phase
  completedFocusCount :: int
  isRunning :: bool
  customMinutes :: int
  remainingSeconds :: int
  focusStartTime :: "int option"
  phaseStartEpochMs :: "int option"
  localStorage :: "string \<Rightarrow> TimerPersistedState option"
  emitted :: "Request list"

text \<open>\<^verbatim>\<open>stateKey\<close>: the user's key, or the guest key while no user id is known.\<close>

definition stateKey :: "Timer \<Rightarrow> string" where
  "stateKey c = (case userId c of
      None \<Rightarrow> ''guest:timer-state''
    | Some u \<Rightarrow> (if u = [] then ''guest:timer-state'' else u @ '':timer-state''))"

text \<open>\<^verbatim>\<open>phaseDurationSeconds\<close> (\<^verbatim>\<open>useMemo\<close>): computed in every render from its own values.\<close>

definition phaseDurationSeconds :: "UserPreferences \<Rightarrow> Timer \<Rightarrow> int" where
  "phaseDurationSeconds prefs c =
     (if \<not> isPomodoro prefs then customMinutes c * 60
      else if phase c = focus then focusMinutes prefs * 60
      else if phase c = shortBreak then shortBreakMinutes prefs * 60
      else longBreakMinutes prefs * 60)"

text \<open>
  \<^verbatim>\<open>persistState(override)\<close>: the snapshot is built from the closure's state variables and
  the live anchor ref, the override is applied, and the result is stored under the
  closure's key. (A throwing \<^verbatim>\<open>setItem\<close> is ignored by the source and is not modelled.)
\<close>

definition persistState ::
  "UserPreferences \<Rightarrow> Timer \<Rightarrow> (TimerPersistedState \<Rightarrow> TimerPersistedState) \<Rightarrow> Timer \<Rightarrow> Timer" where
  "persistState prefs c override e =
     e\<lparr>localStorage := (localStorage e)(stateKey c := Some (override
        \<lparr>saved_phase = phase c,
         saved_isRunning = isRunning c,
         saved_customMinutes = customMinutes c,
         saved_selectedSubjectId = selectedSubjectId c,
         saved_sessionTitle = sessionTitle c,
         saved_sessionType = sessionType c,
         saved_completedFocusCount = completedFocusCount c,
         saved_phaseDurationSeconds = phaseDurationSeconds prefs c,
         saved_remainingSeconds = Some (remainingSeconds c),
         saved_phaseStartEpochMs = phaseStartEpochMs e,
         saved_isPomodoro = isPomodoro prefs\<rparr>))\<rparr>"

subsection \<open>Completion hooks\<close>

definition isWhitespace :: "char \<Rightarrow> bool" where
  "isWhitespace ch = (ch \<in> set [CHR '' '', CHR 0x09, CHR 0x0A, CHR 0x0B, CHR 0x0C, CHR 0x0D])"

text \<open>\<^verbatim>\<open>String.prototype.trim\<close> on ASCII text.\<close>

definition trim :: "string \<Rightarrow> string" where
  "trim s = rev (dropWhile isWhitespace (rev (dropWhile isWhitespace s)))"

text \<open>The streak write that follows the session insert (the \<^verbatim>\<open>if (streakRows)\<close> block).\<close>

definition rewardsRequest :: "Supabase \<Rightarrow> string \<Rightarrow> RewardsRow option \<Rightarrow> Request" where
  "rewardsRequest sb uid streakRows =
     (case streakRows of
        Some r \<Rightarrow>
          (let newCurrent =
                 (if row_last_study_date r = Some (yesterdayIso sb)
                  then (case row_current r of Some k \<Rightarrow> k | None \<Rightarrow> 0) + 1 else 1);
               newLongest = max (case row_longest r of Some k \<Rightarrow> k | None \<Rightarrow> 0) newCurrent
           in UpdateRewards uid newCurrent newLongest (todayIso sb))
      | None \<Rightarrow> InsertRewards uid 1 1 (todayIso sb))"

text \<open>
  \<^verbatim>\<open>logCompletedFocusSession(actualFocusMinutes)\<close>: the requests it issues, in order. The
  body after \<^verbatim>\<open>try\<close> stops at the first call that throws; the \<^verbatim>\<open>catch\<close> is a no-op.
  The start-time ref is read before the first \<^verbatim>\<open>await\<close>, so it is the live value at the
  call. The answer to the last write (\<open>rewardsWrite\<close>) is not consulted: nothing follows it.
\<close>

definition logCompletedFocusSession ::
  "UserPreferences \<Rightarrow> Supabase \<Rightarrow> int \<Rightarrow> Timer \<Rightarrow> Timer \<Rightarrow> int \<Rightarrow> Request list" where
  "logCompletedFocusSession prefs sb now c e actualFocusMinutes =
     (if \<not> hasSubjects prefs then []
      else
        (let endTime = now;
             startTime = (case focusStartTime e of
                            Some t \<Rightarrow> t
                          | None \<Rightarrow> endTime - actualFocusMinutes * 60 * 1000)
         in case authUserId sb of
              Throws \<Rightarrow> []
            | Resolves None \<Rightarrow> []
            | Resolves (Some uid) \<Rightarrow>
                (if uid = [] then []
                 else
                   InsertSession uid (selectedSubjectId c)
                     (if trim (sessionTitle c) = [] then ''Focus Session'' else trim (sessionTitle c))
                     actualFocusMinutes (todayIso sb) startTime endTime (sessionType c)
                   # (case sessionInsert sb of
                        Throws \<Rightarrow> []
                      | Resolves _ \<Rightarrow>
                          (case rewardsSelect sb of
                             Throws \<Rightarrow> []
                           | Resolves streakRows \<Rightarrow> [rewardsRequest sb uid streakRows])))))"

text \<open>
  \<^verbatim>\<open>handlePhaseComplete\<close>. \<^verbatim>\<open>Math.round(secondsUsed / 60)\<close> is \<open>(secondsUsed + 30) div 60\<close>;
  \<^verbatim>\<open>%\<close> is the truncating remainder \<open>smod\<close>. The logging call is not awaited.
\<close>

definition handlePhaseComplete ::
  "UserPreferences \<Rightarrow> Supabase \<Rightarrow> int \<Rightarrow> Timer \<Rightarrow> Timer \<Rightarrow> Timer" where
  "handlePhaseComplete prefs sb now c e =
     (let secondsUsed = phaseDurationSeconds prefs c in
      if phase c = focus then
        (let usedMinutes = (secondsUsed + 30) div 60;
             e1 = e\<lparr>emitted := emitted e @ logCompletedFocusSession prefs sb now c e usedMinutes\<rparr>;
             e2 = e1\<lparr>completedFocusCount := completedFocusCount e1 + 1\<rparr>;
             e3 = e2\<lparr>focusStartTime := None\<rparr>;
             shouldLongBreak =
               ((completedFocusCount c + 1) smod sessionsUntilLongBreak prefs = 0);
             nextPhase = (if shouldLongBreak then longBreak else shortBreak);
             e4 = e3\<lparr>phase := nextPhase\<rparr>;
             e5 = e4\<lparr>isRunning := False\<rparr>;
             e6 = e5\<lparr>phaseStartEpochMs := None\<rparr>
         in persistState prefs c
              (\<lambda>s. s\<lparr>saved_phase := nextPhase, saved_isRunning := False,
                      saved_phaseStartEpochMs := None,
                      saved_remainingSeconds :=
                        Some ((if shouldLongBreak then longBreakMinutes prefs
                               else shortBreakMinutes prefs) * 60)\<rparr>) e6)
      else
        (let e1 = e\<lparr>phase := focus\<rparr>;
             e2 = e1\<lparr>isRunning := False\<rparr>;
             e3 = e2\<lparr>phaseStartEpochMs := None\<rparr>
         in persistState prefs c
              (\<lambda>s. s\<lparr>saved_phase := focus, saved_isRunning := False,
                      saved_phaseStartEpochMs := None,
                      saved_remainingSeconds := Some (focusMinutes prefs * 60)\<rparr>) e3))"

subsection \<open>Countdown, restore and the effects\<close>

text \<open>\<^verbatim>\<open>recomputeRemaining\<close>, called when the tab becomes visible or gains focus.\<close>

definition recomputeRemaining ::
  "UserPreferences \<Rightarrow> Supabase \<Rightarrow> int \<Rightarrow> Timer \<Rightarrow> Timer \<Rightarrow> Timer" where
  "recomputeRemaining prefs sb now c e =
     (if isRunning c \<and> truthy (phaseStartEpochMs e) then
        (let elapsedSec = (now - toNumber (phaseStartEpochMs e)) div 1000;
             newRemaining = max 0 (phaseDurationSeconds prefs c - elapsedSec);
             e1 = e\<lparr>remainingSeconds := newRemaining\<rparr>
         in if newRemaining \<le> 0 then handlePhaseComplete prefs sb now c e1 else e1)
      else e)"

text \<open>
  The restore effect (dependency: \<^verbatim>\<open>stateKey\<close>). It reads the snapshot stored under the
  closure's key; \<^verbatim>\<open>handlePhaseComplete\<close> is the one of the closure's render.
\<close>

definition restoreEffect ::
  "UserPreferences \<Rightarrow> Supabase \<Rightarrow> int \<Rightarrow> Timer \<Rightarrow> Timer \<Rightarrow> Timer" where
  "restoreEffect prefs sb now c e =
     (case localStorage e (stateKey c) of
        None \<Rightarrow> e
      | Some saved \<Rightarrow>
          (let e1 = e\<lparr>phase := saved_phase saved,
                      isRunning := saved_isRunning saved,
                      customMinutes := saved_customMinutes saved,
                      selectedSubjectId :=
                        (if saved_selectedSubjectId saved = [] then defaultSubjectId prefs
                         else saved_selectedSubjectId saved),
                      sessionTitle :=
                        (if saved_sessionTitle saved = [] then ''Focus Session''
                         else saved_sessionTitle saved),
                      sessionType := saved_sessionType saved,
                      completedFocusCount := orElse (saved_completedFocusCount saved) 0,
                      phaseStartEpochMs := saved_phaseStartEpochMs saved\<rparr>;
               e2 = (if saved_isRunning saved \<and> saved_phase saved = focus
                        \<and> truthy (saved_phaseStartEpochMs saved)
                     then e1\<lparr>focusStartTime := saved_phaseStartEpochMs saved\<rparr> else e1)
           in if saved_isRunning saved \<and> truthy (saved_phaseStartEpochMs saved) then
                (let elapsed = (now - toNumber (saved_phaseStartEpochMs saved)) div 1000;
                     dur = orElse (saved_phaseDurationSeconds saved)
                             (phaseDurationSeconds prefs c);
                     rem = max 0 (dur - elapsed);
                     e3 = e2\<lparr>remainingSeconds := rem\<rparr>
                 in if rem \<le> 0 then handlePhaseComplete prefs sb now c e3 else e3)
              else
                e2\<lparr>remainingSeconds :=
                     (case saved_remainingSeconds saved of
                        Some r \<Rightarrow> r | None \<Rightarrow> phaseDurationSeconds prefs c)\<rparr>))"

text \<open>The duration-reset effect (dependencies: \<^verbatim>\<open>phaseDurationSeconds\<close>, \<^verbatim>\<open>isRunning\<close>).\<close>

definition durationResetEffect :: "UserPreferences \<Rightarrow> Timer \<Rightarrow> Timer \<Rightarrow> Timer" where
  "durationResetEffect prefs c e =
     (if \<not> isRunning c then
        persistState prefs c
          (\<lambda>s. s\<lparr>saved_phaseDurationSeconds := phaseDurationSeconds prefs c,
                  saved_remainingSeconds := Some (phaseDurationSeconds prefs c)\<rparr>)
          (e\<lparr>remainingSeconds := phaseDurationSeconds prefs c\<rparr>)
      else e)"

text \<open>
  The interval effect (dependencies: \<^verbatim>\<open>isRunning\<close>, \<^verbatim>\<open>phase\<close>, \<^verbatim>\<open>phaseDurationSeconds\<close>):
  what its body does when it runs. When running it ends by creating the interval whose
  callback is \<open>intervalTick\<close> below, closed over the same render.
\<close>

definition intervalEffect :: "UserPreferences \<Rightarrow> int \<Rightarrow> Timer \<Rightarrow> Timer \<Rightarrow> Timer" where
  "intervalEffect prefs now c e =
     (if \<not> isRunning c then persistState prefs c (\<lambda>s. s) e
      else if \<not> truthy (phaseStartEpochMs e) then
        (let assumedStart = now - (phaseDurationSeconds prefs c - remainingSeconds c) * 1000;
             e1 = e\<lparr>phaseStartEpochMs := Some assumedStart\<rparr>
         in if phase c = focus \<and> focusStartTime e1 = None
            then e1\<lparr>focusStartTime := Some assumedStart\<rparr> else e1)
      else e)"

text \<open>The interval callback: the updater passed to \<^verbatim>\<open>setRemainingSeconds\<close>.\<close>

definition intervalTick ::
  "UserPreferences \<Rightarrow> Supabase \<Rightarrow> int \<Rightarrow> Timer \<Rightarrow> Timer \<Rightarrow> Timer" where
  "intervalTick prefs sb now c e =
     (let start = (if truthy (phaseStartEpochMs e) then toNumber (phaseStartEpochMs e)
                   else now);
          elapsedSec = (now - start) div 1000;
          newRemaining = max 0 (phaseDurationSeconds prefs c - elapsedSec)
      in if newRemaining \<le> 0 then
           (let e1 = handlePhaseComplete prefs sb now c e;
                e2 = persistState prefs c (\<lambda>s. s\<lparr>saved_remainingSeconds := Some 0\<rparr>) e1
            in e2\<lparr>remainingSeconds := 0\<rparr>)
         else
           (persistState prefs c (\<lambda>s. s\<lparr>saved_remainingSeconds := Some newRemaining\<rparr>) e)
             \<lparr>remainingSeconds := newRemaining\<rparr>)"

text \<open>The persist effect (dependencies: every state variable but \<^verbatim>\<open>remainingSeconds\<close>).\<close>

definition persistEffect :: "UserPreferences \<Rightarrow> Timer \<Rightarrow> Timer \<Rightarrow> Timer" where
  "persistEffect prefs c e = persistState prefs c (\<lambda>s. s) e"

subsection \<open>Manual operations\<close>

text \<open>\<^verbatim>\<open>handleStartPause\<close>: the updater passed to \<^verbatim>\<open>setIsRunning\<close>.\<close>

definition handleStartPause :: "UserPreferences \<Rightarrow> int \<Rightarrow> Timer \<Rightarrow> Timer \<Rightarrow> Timer" where
  "handleStartPause prefs now c e =
     (let next = (\<not> isRunning e);
          e1 = (if next \<and> \<not> truthy (phaseStartEpochMs e) then
                  (let assumedStart =
                         now - (phaseDurationSeconds prefs c - remainingSeconds c) * 1000;
                       e0 = e\<lparr>phaseStartEpochMs := Some assumedStart\<rparr>
                   in if phase c = focus \<and> focusStartTime e0 = None
                      then e0\<lparr>focusStartTime := Some assumedStart\<rparr> else e0)
                else e);
          e2 = persistState prefs c (\<lambda>s. s\<lparr>saved_isRunning := next\<rparr>) e1
      in e2\<lparr>isRunning := next\<rparr>)"

text \<open>\<^verbatim>\<open>handleReset\<close>\<close>

definition handleReset :: "UserPreferences \<Rightarrow> Timer \<Rightarrow> Timer \<Rightarrow> Timer" where
  "handleReset prefs c e =
     (let e1 = e\<lparr>isRunning := False\<rparr>;
          e2 = e1\<lparr>remainingSeconds := phaseDurationSeconds prefs c\<rparr>;
          e3 = e2\<lparr>phaseStartEpochMs := None\<rparr>;
          e4 = (if phase c = focus then e3\<lparr>focusStartTime := None\<rparr> else e3)
      in persistState prefs c
           (\<lambda>s. s\<lparr>saved_isRunning := False,
                   saved_remainingSeconds := Some (phaseDurationSeconds prefs c),
                   saved_phaseStartEpochMs := None\<rparr>) e4)"

subsection \<open>Renders, effects and the operations of the engine\<close>

text \<open>
  After a render is committed React runs, in the order of the source, the effects whose
  dependencies differ from the previous render's. \<open>old\<close> is the previous render (with
  preferences \<open>prefs0\<close>), \<open>new\<close> the one just committed (with \<open>prefs\<close>); the effects are the
  new render's closures and start from its state. (The visibility effect only
  re-registers its listeners.)
\<close>

definition runEffects ::
  "Supabase \<Rightarrow> int \<Rightarrow> UserPreferences \<Rightarrow> Timer \<Rightarrow> UserPreferences \<Rightarrow> Timer \<Rightarrow> Timer" where
  "runEffects sb now prefs0 old prefs new =
     (let e1 = (if stateKey old \<noteq> stateKey new
                then restoreEffect prefs sb now new new else new);
          e2 = (if phaseDurationSeconds prefs0 old \<noteq> phaseDurationSeconds prefs new
                   \<or> isRunning old \<noteq> isRunning new
                then durationResetEffect prefs new e1 else e1);
          e3 = (if isRunning old \<noteq> isRunning new \<or> phase old \<noteq> phase new
                   \<or> phaseDurationSeconds prefs0 old \<noteq> phaseDurationSeconds prefs new
                then intervalEffect prefs now new e2 else e2)
      in if phase old \<noteq> phase new \<or> isRunning old \<noteq> isRunning new
            \<or> customMinutes old \<noteq> customMinutes new
            \<or> selectedSubjectId old \<noteq> selectedSubjectId new
            \<or> sessionTitle old \<noteq> sessionTitle new
            \<or> sessionType old \<noteq> sessionType new
            \<or> completedFocusCount old \<noteq> completedFocusCount new
         then persistEffect prefs new e3 else e3)"

text \<open>
  The state updates queued by those effects give one more render, whose effects run in
  turn. Two rounds reach a render whose effects queue nothing further (lemma
  \<open>settle_stable\<close>).
\<close>

definition settle ::
  "Supabase \<Rightarrow> int \<Rightarrow> UserPreferences \<Rightarrow> Timer \<Rightarrow> UserPreferences \<Rightarrow> Timer \<Rightarrow> Timer" where
  "settle sb now prefs0 old prefs new =
     runEffects sb now prefs new prefs (runEffects sb now prefs0 old prefs new)"

text \<open>The first render: the initial values of the \<^verbatim>\<open>useState\<close> and \<^verbatim>\<open>useRef\<close> calls.\<close>

definition initialRender ::
  "UserPreferences \<Rightarrow> (string \<Rightarrow> TimerPersistedState option) \<Rightarrow> Timer" where
  "initialRender prefs store =
     (let c = \<lparr>userId = None,
               selectedSubjectId = defaultSubjectId prefs,
               sessionTitle = ''Focus Session'',
               sessionType = study,
               phase = focus,
               completedFocusCount = 0,
               isRunning = False,
               customMinutes = 25,
               remainingSeconds = 0,
               focusStartTime = None,
               phaseStartEpochMs = None,
               localStorage = store,
               emitted = []\<rparr>
      in c\<lparr>remainingSeconds := phaseDurationSeconds prefs c\<rparr>)"

text \<open>On mount every effect runs once, in source order, as a closure of the first render.\<close>

definition mountEffects :: "UserPreferences \<Rightarrow> Supabase \<Rightarrow> int \<Rightarrow> Timer \<Rightarrow> Timer" where
  "mountEffects prefs sb now c =
     (let e1 = restoreEffect prefs sb now c c;
          e2 = durationResetEffect prefs c e1;
          e3 = intervalEffect prefs now c e2
      in persistEffect prefs c e3)"

text \<open>Cold start: the first render, its effects, and the renders they cause.\<close>

definition mount ::
  "UserPreferences \<Rightarrow> Supabase \<Rightarrow> int \<Rightarrow> (string \<Rightarrow> TimerPersistedState option) \<Rightarrow> Timer" where
  "mount prefs sb now store =
     (let c = initialRender prefs store
      in settle sb now prefs c prefs (mountEffects prefs sb now c))"

text \<open>
  The operations, each followed by the renders it causes. The buttons call the handlers of
  the latest render; the start button is disabled while the subject list is empty.
\<close>

definition startOrPause :: "UserPreferences \<Rightarrow> Supabase \<Rightarrow> int \<Rightarrow> Timer \<Rightarrow> Timer" where
  "startOrPause prefs sb now e =
     (if hasSubjects prefs
      then settle sb now prefs e prefs (handleStartPause prefs now e e) else e)"

definition reset :: "UserPreferences \<Rightarrow> Supabase \<Rightarrow> int \<Rightarrow> Timer \<Rightarrow> Timer" where
  "reset prefs sb now e = settle sb now prefs e prefs (handleReset prefs e e)"

text \<open>
  The interval callback is not re-created by every render: it is the closure of the render
  in which \<^verbatim>\<open>isRunning\<close>, \<^verbatim>\<open>phase\<close> or \<^verbatim>\<open>phaseDurationSeconds\<close> last changed, and it exists only
  if that render was running. The visibility listener is the closure of the render in
  which \<^verbatim>\<open>isRunning\<close> or \<^verbatim>\<open>phaseDurationSeconds\<close> last changed. That render \<open>c\<close> and its
  preferences \<open>q\<close> are arguments; \<open>e\<close> is the latest render, under preferences \<open>prefs\<close>.
\<close>

definition intervalFires ::
  "UserPreferences \<Rightarrow> Timer \<Rightarrow> UserPreferences \<Rightarrow> Supabase \<Rightarrow> int \<Rightarrow> Timer \<Rightarrow> Timer" where
  "intervalFires q c prefs sb now e =
     (if isRunning c then settle sb now prefs e prefs (intervalTick q sb now c e) else e)"

definition listenerFires ::
  "UserPreferences \<Rightarrow> Timer \<Rightarrow> UserPreferences \<Rightarrow> Supabase \<Rightarrow> int \<Rightarrow> Timer \<Rightarrow> Timer" where
  "listenerFires q c prefs sb now e =
     settle sb now prefs e prefs (recomputeRemaining q sb now c e)"

text \<open>
  The case in which the callback's render is the latest one, as it is after a start and
  after any other change of those dependencies. Later renders that differ from it in
  \<^verbatim>\<open>remainingSeconds\<close> only (those caused by the ticks themselves) make no difference: the
  callbacks never read \<^verbatim>\<open>remainingSeconds\<close> from their closure (lemmas
  \<open>intervalTick_closure_remaining\<close> and \<open>recomputeRemaining_closure_remaining\<close>).
\<close>

definition tick :: "UserPreferences \<Rightarrow> Supabase \<Rightarrow> int \<Rightarrow> Timer \<Rightarrow> Timer" where
  "tick prefs sb now e = intervalFires prefs e prefs sb now e"

definition visibilityRegained :: "UserPreferences \<Rightarrow> Supabase \<Rightarrow> int \<Rightarrow> Timer \<Rightarrow> Timer" where
  "visibilityRegained prefs sb now e = listenerFires prefs e prefs sb now e"



text \<open>\<^verbatim>\<open>auth.getUser()\<close> of the first effect resolves: \<^verbatim>\<open>setUserId\<close>.\<close>

definition userResolved ::
  "UserPreferences \<Rightarrow> Supabase \<Rightarrow> int \<Rightarrow> string option \<Rightarrow> Timer \<Rightarrow> Timer" where
  "userResolved prefs sb now u e = settle sb now prefs e prefs (e\<lparr>userId := u\<rparr>)"

subsection \<open>Concrete preferences, collaborators, snapshots and runs\<close>

definition examplePrefs :: UserPreferences where
  "examplePrefs =
     \<lparr>subjects = [''math''], studyMethod = pomodoro,
      pomodoroSettings = \<lparr>ps_focusTime = 25, ps_shortBreak = 5, ps_longBreak = 15,
                          ps_sessionsUntilLongBreak = 4\<rparr>\<rparr>"


definition exampleSupabase :: Supabase where
  "exampleSupabase =
     \<lparr>authUserId = Resolves (Some ''u1''), sessionInsert = Resolves True,
      rewardsSelect = Resolves None, rewardsWrite = Resolves True,
      todayIso = ''2024-01-02'', yesterdayIso = ''2024-01-01''\<rparr>"


definition guestSupabase :: Supabase where
  "guestSupabase = exampleSupabase\<lparr>authUserId := Resolves None\<rparr>"

definition noSubjectPrefs :: UserPreferences where
  "noSubjectPrefs = examplePrefs\<lparr>subjects := []\<rparr>"

definition emptyStore :: "string \<Rightarrow> TimerPersistedState option" where
  "emptyStore = (\<lambda>k. None)"

definition storeWith :: "string \<Rightarrow> TimerPersistedState \<Rightarrow> string \<Rightarrow> TimerPersistedState option" where
  "storeWith key snapshot = (\<lambda>k. if k = key then Some snapshot else None)"

text \<open>A focus phase of 1500 s started at 1000000 ms and still marked as running.\<close>

definition focusSnapshot :: "int \<Rightarrow> TimerPersistedState" where
  "focusSnapshot n =
     \<lparr>saved_phase = focus, saved_isRunning = True, saved_customMinutes = 25,
      saved_selectedSubjectId = ''math'', saved_sessionTitle = ''Focus Session'',
      saved_sessionType = study, saved_completedFocusCount = n,
      saved_phaseDurationSeconds = 1500, saved_remainingSeconds = Some 1500,
      saved_phaseStartEpochMs = Some 1000000, saved_isPomodoro = True\<rparr>"

text \<open>A short break of 300 s started at 1000000 ms and still marked as running.\<close>

definition breakSnapshot :: "int \<Rightarrow> TimerPersistedState" where
  "breakSnapshot n =
     (focusSnapshot n)\<lparr>saved_phase := shortBreak, saved_phaseDurationSeconds := 300,
                       saved_remainingSeconds := Some 300\<rparr>"



text \<open>
  A run: the component mounts at 1000000 ms with nothing stored, the user starts the
  focus phase at once, 900 s later a tick shows 600 s, the user pauses, and resumes
  300 s after that.
\<close>

definition freshTimer :: Timer where
  "freshTimer = mount examplePrefs exampleSupabase 1000000 emptyStore"

definition startedTimer :: Timer where
  "startedTimer = startOrPause examplePrefs exampleSupabase 1000000 freshTimer"

definition runningTimer :: Timer where
  "runningTimer = tick examplePrefs exampleSupabase 1900000 startedTimer"

definition pausedTimer :: Timer where
  "pausedTimer = startOrPause examplePrefs exampleSupabase 1900000 runningTimer"

definition resumedTimer :: Timer where
  "resumedTimer =
     tick examplePrefs exampleSupabase 2200000
       (startOrPause examplePrefs exampleSupabase 2200000 pausedTimer)"

text \<open>The same start, paused after one minute.\<close>

definition pausedEarly :: Timer where
  "pausedEarly = startOrPause examplePrefs exampleSupabase 1060000 startedTimer"

text \<open>A run on a clock that starts at 0 ms: mount and start at 0.\<close>

definition zeroClockTimer :: Timer where
  "zeroClockTimer =
     startOrPause examplePrefs exampleSupabase 0
       (mount examplePrefs exampleSupabase 0 emptyStore)"

text \<open>
  Cold start of a signed-in user whose snapshot is stored under the user's key: the
  component mounts at \<open>now\<close> and \<^verbatim>\<open>auth.getUser()\<close> resolves with \<^verbatim>\<open>u1\<close>.
\<close>

definition coldStart ::
  "UserPreferences \<Rightarrow> Supabase \<Rightarrow> int \<Rightarrow> TimerPersistedState \<Rightarrow> Timer" where
  "coldStart prefs sb now snapshot =
     userResolved prefs sb now (Some ''u1'')
       (mount prefs sb now (storeWith ''u1:timer-state'' snapshot))"






text \<open>A focus phase with three completed before it, and a short break, both running.\<close>

definition fourthFocusRunning :: Timer where
  "fourthFocusRunning = startedTimer\<lparr>completedFocusCount := 3\<rparr>"

definition breakRunning :: Timer where
  "breakRunning =
     startOrPause examplePrefs exampleSupabase 2600000
       (tick examplePrefs exampleSupabase 2500000 startedTimer)"

text \<open>The first render over a store that holds a snapshot under the guest key.\<close>

definition guestRender :: "TimerPersistedState \<Rightarrow> Timer" where
  "guestRender snapshot = initialRender examplePrefs (storeWith ''guest:timer-state'' snapshot)"



text \<open>The session records among the requests issued.\<close>

definition sessionRecords :: "Timer \<Rightarrow> nat" where
  "sessionRecords e = length (filter isSessionInsert (emitted e))"

section \<open>Properties\<close>

subsection \<open>What each function leaves unchanged\<close>

lemma smod_eq_0_iff: "(a smod b = 0) = (a mod b = 0)" for a b :: int
  by (auto simp add: smod_int_alt_def sgn_if mod_eq_0_iff_dvd)

lemma persistState_fields [simp]:
  "userId (persistState prefs c f e) = userId e"
  "selectedSubjectId (persistState prefs c f e) = selectedSubjectId e"
  "sessionTitle (persistState prefs c f e) = sessionTitle e"
  "sessionType (persistState prefs c f e) = sessionType e"
  "phase (persistState prefs c f e) = phase e"
  "completedFocusCount (persistState prefs c f e) = completedFocusCount e"
  "isRunning (persistState prefs c f e) = isRunning e"
  "customMinutes (persistState prefs c f e) = customMinutes e"
  "remainingSeconds (persistState prefs c f e) = remainingSeconds e"
  "focusStartTime (persistState prefs c f e) = focusStartTime e"
  "phaseStartEpochMs (persistState prefs c f e) = phaseStartEpochMs e"
  "emitted (persistState prefs c f e) = emitted e"
  by (simp_all add: persistState_def)

lemma stateKey_cong: "userId a = userId b \<Longrightarrow> stateKey a = stateKey b"
  by (simp add: stateKey_def)

lemma phaseDurationSeconds_cong:
  "phase a = phase b \<Longrightarrow> customMinutes a = customMinutes b \<Longrightarrow>
   phaseDurationSeconds prefs a = phaseDurationSeconds prefs b"
  by (simp add: phaseDurationSeconds_def)

lemma durationResetEffect_fields [simp]:
  "userId (durationResetEffect prefs c e) = userId e"
  "selectedSubjectId (durationResetEffect prefs c e) = selectedSubjectId e"
  "sessionTitle (durationResetEffect prefs c e) = sessionTitle e"
  "sessionType (durationResetEffect prefs c e) = sessionType e"
  "phase (durationResetEffect prefs c e) = phase e"
  "completedFocusCount (durationResetEffect prefs c e) = completedFocusCount e"
  "isRunning (durationResetEffect prefs c e) = isRunning e"
  "customMinutes (durationResetEffect prefs c e) = customMinutes e"
  "focusStartTime (durationResetEffect prefs c e) = focusStartTime e"
  "phaseStartEpochMs (durationResetEffect prefs c e) = phaseStartEpochMs e"
  "emitted (durationResetEffect prefs c e) = emitted e"
  "remainingSeconds (durationResetEffect prefs c e) =
     (if isRunning c then remainingSeconds e else phaseDurationSeconds prefs c)"
  by (simp_all add: durationResetEffect_def)

lemma intervalEffect_fields [simp]:
  "userId (intervalEffect prefs now c e) = userId e"
  "selectedSubjectId (intervalEffect prefs now c e) = selectedSubjectId e"
  "sessionTitle (intervalEffect prefs now c e) = sessionTitle e"
  "sessionType (intervalEffect prefs now c e) = sessionType e"
  "phase (intervalEffect prefs now c e) = phase e"
  "completedFocusCount (intervalEffect prefs now c e) = completedFocusCount e"
  "isRunning (intervalEffect prefs now c e) = isRunning e"
  "customMinutes (intervalEffect prefs now c e) = customMinutes e"
  "remainingSeconds (intervalEffect prefs now c e) = remainingSeconds e"
  "emitted (intervalEffect prefs now c e) = emitted e"
  "phaseStartEpochMs (intervalEffect prefs now c e) =
     (if isRunning c \<and> \<not> truthy (phaseStartEpochMs e)
      then Some (now - (phaseDurationSeconds prefs c - remainingSeconds c) * 1000)
      else phaseStartEpochMs e)"
  by (simp_all add: intervalEffect_def Let_def)

lemma persistEffect_fields [simp]:
  "userId (persistEffect prefs c e) = userId e"
  "selectedSubjectId (persistEffect prefs c e) = selectedSubjectId e"
  "sessionTitle (persistEffect prefs c e) = sessionTitle e"
  "sessionType (persistEffect prefs c e) = sessionType e"
  "phase (persistEffect prefs c e) = phase e"
  "completedFocusCount (persistEffect prefs c e) = completedFocusCount e"
  "isRunning (persistEffect prefs c e) = isRunning e"
  "customMinutes (persistEffect prefs c e) = customMinutes e"
  "remainingSeconds (persistEffect prefs c e) = remainingSeconds e"
  "focusStartTime (persistEffect prefs c e) = focusStartTime e"
  "phaseStartEpochMs (persistEffect prefs c e) = phaseStartEpochMs e"
  "emitted (persistEffect prefs c e) = emitted e"
  by (simp_all add: persistEffect_def)

lemma handlePhaseComplete_fields [simp]:
  "userId (handlePhaseComplete prefs sb now c e) = userId e"
  "selectedSubjectId (handlePhaseComplete prefs sb now c e) = selectedSubjectId e"
  "sessionTitle (handlePhaseComplete prefs sb now c e) = sessionTitle e"
  "sessionType (handlePhaseComplete prefs sb now c e) = sessionType e"
  "customMinutes (handlePhaseComplete prefs sb now c e) = customMinutes e"
  "remainingSeconds (handlePhaseComplete prefs sb now c e) = remainingSeconds e"
  "isRunning (handlePhaseComplete prefs sb now c e) = False"
  "phaseStartEpochMs (handlePhaseComplete prefs sb now c e) = None"
  by (simp_all add: handlePhaseComplete_def Let_def)

lemma handlePhaseComplete_phase:
  "phase (handlePhaseComplete prefs sb now c e) =
     (if phase c = focus
      then (if (completedFocusCount c + 1) mod sessionsUntilLongBreak prefs = 0
            then longBreak else shortBreak)
      else focus)"
  by (simp add: handlePhaseComplete_def Let_def smod_eq_0_iff)

lemma handlePhaseComplete_count:
  "completedFocusCount (handlePhaseComplete prefs sb now c e) =
     (if phase c = focus then completedFocusCount e + 1 else completedFocusCount e)"
  by (simp add: handlePhaseComplete_def Let_def)

lemma handlePhaseComplete_emitted:
  "emitted (handlePhaseComplete prefs sb now c e) =
     (if phase c = focus
      then emitted e @ logCompletedFocusSession prefs sb now c e
                         ((phaseDurationSeconds prefs c + 30) div 60)
      else emitted e)"
  by (simp add: handlePhaseComplete_def Let_def)

text \<open>The effects of a render whose storage key is the previous render's.\<close>

lemma runEffects_fields:
  assumes "userId old = userId new"
  shows "userId (runEffects sb now prefs0 old prefs new) = userId new"
    and "selectedSubjectId (runEffects sb now prefs0 old prefs new) = selectedSubjectId new"
    and "sessionTitle (runEffects sb now prefs0 old prefs new) = sessionTitle new"
    and "sessionType (runEffects sb now prefs0 old prefs new) = sessionType new"
    and "phase (runEffects sb now prefs0 old prefs new) = phase new"
    and "completedFocusCount (runEffects sb now prefs0 old prefs new) = completedFocusCount new"
    and "isRunning (runEffects sb now prefs0 old prefs new) = isRunning new"
    and "customMinutes (runEffects sb now prefs0 old prefs new) = customMinutes new"
    and "emitted (runEffects sb now prefs0 old prefs new) = emitted new"
  using stateKey_cong [OF assms] by (simp_all add: runEffects_def Let_def)

lemma runEffects_remaining:
  assumes "userId old = userId new"
  shows "remainingSeconds (runEffects sb now prefs0 old prefs new) =
     (if (phaseDurationSeconds prefs0 old \<noteq> phaseDurationSeconds prefs new
           \<or> isRunning old \<noteq> isRunning new) \<and> \<not> isRunning new
      then phaseDurationSeconds prefs new else remainingSeconds new)"
  using stateKey_cong [OF assms] by (simp add: runEffects_def Let_def)

lemma runEffects_anchor:
  assumes "userId old = userId new"
  shows "phaseStartEpochMs (runEffects sb now prefs0 old prefs new) =
     (if (isRunning old \<noteq> isRunning new \<or> phase old \<noteq> phase new
           \<or> phaseDurationSeconds prefs0 old \<noteq> phaseDurationSeconds prefs new)
         \<and> isRunning new \<and> \<not> truthy (phaseStartEpochMs new)
      then Some (now - (phaseDurationSeconds prefs new - remainingSeconds new) * 1000)
      else phaseStartEpochMs new)"
  using stateKey_cong [OF assms] by (simp add: runEffects_def Let_def)

text \<open>A render that differs from the previous one in no dependency runs no effect.\<close>

lemma runEffects_noop:
  assumes "userId old = userId new" "phase old = phase new" "isRunning old = isRunning new"
    "customMinutes old = customMinutes new" "selectedSubjectId old = selectedSubjectId new"
    "sessionTitle old = sessionTitle new" "sessionType old = sessionType new"
    "completedFocusCount old = completedFocusCount new"
  shows "runEffects sb now prefs old prefs new = new"
  using assms stateKey_cong [of old new] phaseDurationSeconds_cong [of old new prefs]
  by (simp add: runEffects_def Let_def)

lemma settle_eq_runEffects:
  assumes "userId old = userId new"
  shows "settle sb now prefs0 old prefs new = runEffects sb now prefs0 old prefs new"
  unfolding settle_def
  by (rule runEffects_noop) (simp_all add: runEffects_fields [OF assms])

lemma restoreEffect_userId [simp]: "userId (restoreEffect prefs sb now c e) = userId e"
  by (simp add: restoreEffect_def Let_def split: option.split)

lemma runEffects_userId [simp]: "userId (runEffects sb now prefs0 old prefs new) = userId new"
  by (simp add: runEffects_def Let_def)

text \<open>After the two rounds of \<open>settle\<close> a further render runs no effect.\<close>

lemma settle_stable:
  "runEffects sb now prefs (runEffects sb now prefs0 old prefs new) prefs
     (settle sb now prefs0 old prefs new) = settle sb now prefs0 old prefs new"
  unfolding settle_def
  by (rule runEffects_noop) (simp_all add: runEffects_fields)

lemma handleReset_fields [simp]:
  "userId (handleReset prefs c e) = userId e"
  "phase (handleReset prefs c e) = phase e"
  "completedFocusCount (handleReset prefs c e) = completedFocusCount e"
  "customMinutes (handleReset prefs c e) = customMinutes e"
  "emitted (handleReset prefs c e) = emitted e"
  "isRunning (handleReset prefs c e) = False"
  "phaseStartEpochMs (handleReset prefs c e) = None"
  "remainingSeconds (handleReset prefs c e) = phaseDurationSeconds prefs c"
  by (simp_all add: handleReset_def Let_def)

lemma handleStartPause_fields [simp]:
  "userId (handleStartPause prefs now c e) = userId e"
  "phase (handleStartPause prefs now c e) = phase e"
  "completedFocusCount (handleStartPause prefs now c e) = completedFocusCount e"
  "customMinutes (handleStartPause prefs now c e) = customMinutes e"
  "remainingSeconds (handleStartPause prefs now c e) = remainingSeconds e"
  "emitted (handleStartPause prefs now c e) = emitted e"
  "isRunning (handleStartPause prefs now c e) = (\<not> isRunning e)"
  "phaseStartEpochMs (handleStartPause prefs now c e) =
     (if \<not> isRunning e \<and> \<not> truthy (phaseStartEpochMs e)
      then Some (now - (phaseDurationSeconds prefs c - remainingSeconds c) * 1000)
      else phaseStartEpochMs e)"
  by (simp_all add: handleStartPause_def Let_def)

subsection \<open>Manual reset\<close>

text \<open>
  Claim C8. For every engine state and every configuration, after \<open>reset\<close> the timer is
  not running, the anchor \<open>phaseStartEpochMs\<close> is cleared, \<open>remainingSeconds\<close> equals the
  current phase's full duration \<open>phaseDurationSeconds\<close> (which the reset does not change),
  and both \<open>phase\<close> and \<open>completedFocusCount\<close> are unchanged.
\<close>

theorem reset_restores_full_duration:
  "isRunning (reset prefs sb now e) = False
   \<and> phaseStartEpochMs (reset prefs sb now e) = None
   \<and> remainingSeconds (reset prefs sb now e) = phaseDurationSeconds prefs (reset prefs sb now e)
   \<and> phaseDurationSeconds prefs (reset prefs sb now e) = phaseDurationSeconds prefs e
   \<and> phase (reset prefs sb now e) = phase e
   \<and> completedFocusCount (reset prefs sb now e) = completedFocusCount e"
proof -
  let ?h = "handleReset prefs e e"
  have same: "userId e = userId ?h" by simp
  have r: "reset prefs sb now e = runEffects sb now prefs e prefs ?h"
    by (simp add: reset_def settle_eq_runEffects [OF same])
  have d: "phaseDurationSeconds prefs ?h = phaseDurationSeconds prefs e"
    by (rule phaseDurationSeconds_cong) simp_all
  have d': "phaseDurationSeconds prefs (reset prefs sb now e) = phaseDurationSeconds prefs e"
    unfolding r by (rule phaseDurationSeconds_cong) (simp_all add: runEffects_fields [OF same])
  show ?thesis
    unfolding d' unfolding r
    by (simp add: runEffects_fields [OF same] runEffects_remaining [OF same]
        runEffects_anchor [OF same] d)
qed

subsection \<open>Pause and resume\<close>

text \<open>
  Claim C1 says that pausing clears the anchor and freezes \<open>remainingSeconds\<close>, and that
  resuming rebuilds the anchor so that the remaining time recomputed after the resume
  equals the remaining time at the pause. The run below is a focus phase of 1500 s started
  at 1000000 ms. After 900 s it shows 600 s and is paused: \<open>handleStartPause\<close> leaves
  \<open>phaseStartEpochMs\<close> at the original start, and the duration-reset effect, which depends
  on \<open>isRunning\<close>, puts \<open>remainingSeconds\<close> back to 1500. On the resume 300 s later the
  anchor is found set and is kept, so the next tick shows 300 s: the pause was counted as
  elapsed time.
\<close>

theorem pause_then_resume_counts_the_pause:
  "isRunning runningTimer = True \<and> remainingSeconds runningTimer = 600
   \<and> isRunning pausedTimer = False
   \<and> phaseStartEpochMs pausedTimer = Some 1000000
   \<and> remainingSeconds pausedTimer = 1500
   \<and> remainingSeconds resumedTimer = 300"
  by code_simp

text \<open>
  Claim C2 says that \<open>phaseStartEpochMs\<close> is non-null exactly when \<open>isRunning\<close> holds, at
  every point reachable by the engine's operations. Mounting, starting and pausing one
  minute later reaches a state that is not running and whose anchor is still set.
\<close>

theorem paused_timer_keeps_anchor:
  "isRunning startedTimer = True \<and> phaseStartEpochMs startedTimer = Some 1000000
   \<and> isRunning pausedEarly = False \<and> phaseStartEpochMs pausedEarly = Some 1000000"
  by code_simp

subsection \<open>Failures and early returns of the completion hooks\<close>

lemma rewardsRequest_not_session [simp]: "isSessionInsert (rewardsRequest sb uid r) = False"
  by (simp add: rewardsRequest_def Let_def split: option.split)



lemma log_nothing:
  assumes "\<not> hasSubjects prefs \<or> authUserId sb = Resolves None
           \<or> authUserId sb = Resolves (Some [])"
  shows "logCompletedFocusSession prefs sb now c e m = []"
  using assms by (auto simp add: logCompletedFocusSession_def Let_def)




text \<open>
  Claim C10. If the subject list is empty, or no authenticated user id is available when
  the emission runs, a focus-phase completion issues no request at all (no session
  record, no streak update): the logging operation returns early. The completion still
  enters the break phase, increments \<open>completedFocusCount\<close>, stops the timer and clears
  the anchor.
\<close>

theorem no_subject_or_user_no_emission:
  assumes "phase c = focus"
    and "\<not> hasSubjects prefs \<or> authUserId sb = Resolves None
         \<or> authUserId sb = Resolves (Some [])"
  shows "logCompletedFocusSession prefs sb now c e
           ((phaseDurationSeconds prefs c + 30) div 60) = []
         \<and> emitted (handlePhaseComplete prefs sb now c e) = emitted e
         \<and> phase (handlePhaseComplete prefs sb now c e) =
             (if (completedFocusCount c + 1) mod sessionsUntilLongBreak prefs = 0
              then longBreak else shortBreak)
         \<and> completedFocusCount (handlePhaseComplete prefs sb now c e) = completedFocusCount e + 1
         \<and> isRunning (handlePhaseComplete prefs sb now c e) = False
         \<and> phaseStartEpochMs (handlePhaseComplete prefs sb now c e) = None"
  using assms(1) log_nothing [OF assms(2)]
  by (simp add: handlePhaseComplete_emitted handlePhaseComplete_phase handlePhaseComplete_count)

theorem no_subject_or_user_witness:
  "(phase startedTimer = focus \<and> \<not> hasSubjects noSubjectPrefs
    \<and> emitted (handlePhaseComplete noSubjectPrefs exampleSupabase 2500000 startedTimer startedTimer)
        = emitted startedTimer
    \<and> completedFocusCount (handlePhaseComplete noSubjectPrefs exampleSupabase 2500000
                             startedTimer startedTimer) = completedFocusCount startedTimer + 1
    \<and> phase (handlePhaseComplete noSubjectPrefs exampleSupabase 2500000 startedTimer startedTimer)
        = shortBreak)
   \<and> (authUserId guestSupabase = Resolves None
    \<and> emitted (handlePhaseComplete examplePrefs guestSupabase 2500000 startedTimer startedTimer)
        = emitted startedTimer
    \<and> completedFocusCount (handlePhaseComplete examplePrefs guestSupabase 2500000
                             startedTimer startedTimer) = completedFocusCount startedTimer + 1
    \<and> phase (handlePhaseComplete examplePrefs guestSupabase 2500000 startedTimer startedTimer)
        = shortBreak)"
proof -
  have h: "phase startedTimer = focus" by code_simp
  have n: "\<not> hasSubjects noSubjectPrefs" by code_simp
  have g: "authUserId guestSupabase = Resolves None" by code_simp
  have k: "(completedFocusCount startedTimer + 1) mod sessionsUntilLongBreak noSubjectPrefs \<noteq> 0"
    "(completedFocusCount startedTimer + 1) mod sessionsUntilLongBreak examplePrefs \<noteq> 0"
    by code_simp+
  have a: "\<not> hasSubjects noSubjectPrefs \<or> authUserId exampleSupabase = Resolves None
         \<or> authUserId exampleSupabase = Resolves (Some [])" using n by simp
  have b: "\<not> hasSubjects examplePrefs \<or> authUserId guestSupabase = Resolves None
         \<or> authUserId guestSupabase = Resolves (Some [])" using g by simp
  show ?thesis
    using h n g k
      no_subject_or_user_no_emission [OF h a, of 2500000 startedTimer]
      no_subject_or_user_no_emission [OF h b, of 2500000 startedTimer]
    by simp
qed

subsection \<open>The countdown\<close>

lemma intervalTick_remaining:
  "remainingSeconds (intervalTick prefs sb now c e) =
     max 0 (phaseDurationSeconds prefs c
            - (now - (if truthy (phaseStartEpochMs e) then toNumber (phaseStartEpochMs e)
                      else now)) div 1000)"
  by (simp add: intervalTick_def Let_def)

lemma intervalTick_continues:
  assumes "0 < phaseDurationSeconds prefs c
             - (now - (if truthy (phaseStartEpochMs e) then toNumber (phaseStartEpochMs e)
                       else now)) div 1000"
  shows "userId (intervalTick prefs sb now c e) = userId e"
    and "phase (intervalTick prefs sb now c e) = phase e"
    and "isRunning (intervalTick prefs sb now c e) = isRunning e"
    and "completedFocusCount (intervalTick prefs sb now c e) = completedFocusCount e"
    and "customMinutes (intervalTick prefs sb now c e) = customMinutes e"
    and "phaseStartEpochMs (intervalTick prefs sb now c e) = phaseStartEpochMs e"
    and "emitted (intervalTick prefs sb now c e) = emitted e"
  using assms by (simp_all add: intervalTick_def Let_def)

lemma intervalTick_completes:
  assumes "phaseDurationSeconds prefs c
             - (now - (if truthy (phaseStartEpochMs e) then toNumber (phaseStartEpochMs e)
                       else now)) div 1000 \<le> 0"
  shows "intervalTick prefs sb now c e =
           (persistState prefs c (\<lambda>s. s\<lparr>saved_remainingSeconds := Some 0\<rparr>)
              (handlePhaseComplete prefs sb now c e))\<lparr>remainingSeconds := 0\<rparr>"
  using assms by (simp add: intervalTick_def Let_def)

lemma intervalTick_userId [simp]: "userId (intervalTick prefs sb now c e) = userId e"
  by (simp add: intervalTick_def Let_def)

text \<open>The callbacks do not read \<^verbatim>\<open>remainingSeconds\<close> from the render they close over.\<close>

lemma phaseDurationSeconds_closure_remaining [simp]:
  "phaseDurationSeconds prefs (c\<lparr>remainingSeconds := r\<rparr>) = phaseDurationSeconds prefs c"
  by (simp add: phaseDurationSeconds_def)

lemma logCompletedFocusSession_closure_remaining:
  "logCompletedFocusSession prefs sb now (c\<lparr>remainingSeconds := r\<rparr>) e m =
     logCompletedFocusSession prefs sb now c e m"
  by (simp add: logCompletedFocusSession_def Let_def split: awaited.split option.split)

lemma handlePhaseComplete_closure_remaining:
  "handlePhaseComplete prefs sb now (c\<lparr>remainingSeconds := r\<rparr>) e =
     handlePhaseComplete prefs sb now c e"
  by (simp add: handlePhaseComplete_def Let_def persistState_def stateKey_def
      logCompletedFocusSession_closure_remaining)

lemma intervalTick_closure_remaining:
  "intervalTick prefs sb now (c\<lparr>remainingSeconds := r\<rparr>) e = intervalTick prefs sb now c e"
  by (simp add: intervalTick_def Let_def handlePhaseComplete_closure_remaining
      persistState_def stateKey_def)

lemma recomputeRemaining_closure_remaining:
  "recomputeRemaining prefs sb now (c\<lparr>remainingSeconds := r\<rparr>) e =
     recomputeRemaining prefs sb now c e"
  by (simp add: recomputeRemaining_def Let_def handlePhaseComplete_closure_remaining)

lemma recomputeRemaining_unfold:
  assumes "isRunning c" and "phaseStartEpochMs e = Some a" and "a \<noteq> 0"
  shows "recomputeRemaining prefs sb now c e =
           (if max 0 (phaseDurationSeconds prefs c - (now - a) div 1000) = 0
            then handlePhaseComplete prefs sb now c (e\<lparr>remainingSeconds := 0\<rparr>)
            else e\<lparr>remainingSeconds :=
                     max 0 (phaseDurationSeconds prefs c - (now - a) div 1000)\<rparr>)"
  using assms by (simp add: recomputeRemaining_def Let_def max_def)

lemma recomputeRemaining_no_anchor:
  "phaseStartEpochMs e = None \<Longrightarrow> recomputeRemaining prefs sb now c e = e"
  by (simp add: recomputeRemaining_def)

text \<open>
  Claim C4, as the code has it. For every running state whose anchor is set and is not
  \<open>0\<close>, the recomputed remaining time (on the visibility signal and on the interval tick)
  is \<open>max 0 (phaseDurationSeconds - (now - phaseStartEpochMs) div 1000)\<close>; recomputing again
  with the same \<open>now\<close> changes nothing; and when the value is \<open>0\<close> the phase completion runs
  in the same call.
\<close>

theorem recompute_formula_and_completion:
  assumes "isRunning c" and "phaseStartEpochMs e = Some a" and "a \<noteq> 0"
  shows "remainingSeconds (recomputeRemaining prefs sb now c e) =
           max 0 (phaseDurationSeconds prefs c - (now - a) div 1000)
         \<and> remainingSeconds (intervalTick prefs sb now c e) =
             max 0 (phaseDurationSeconds prefs c - (now - a) div 1000)
         \<and> recomputeRemaining prefs sb now c (recomputeRemaining prefs sb now c e) =
             recomputeRemaining prefs sb now c e
         \<and> recomputeRemaining prefs sb now c e =
             (if max 0 (phaseDurationSeconds prefs c - (now - a) div 1000) = 0
              then handlePhaseComplete prefs sb now c (e\<lparr>remainingSeconds := 0\<rparr>)
              else e\<lparr>remainingSeconds :=
                       max 0 (phaseDurationSeconds prefs c - (now - a) div 1000)\<rparr>)
         \<and> intervalTick prefs sb now c e =
             (if max 0 (phaseDurationSeconds prefs c - (now - a) div 1000) = 0
              then (persistState prefs c (\<lambda>s. s\<lparr>saved_remainingSeconds := Some 0\<rparr>)
                      (handlePhaseComplete prefs sb now c e))\<lparr>remainingSeconds := 0\<rparr>
              else (persistState prefs c
                      (\<lambda>s. s\<lparr>saved_remainingSeconds :=
                               Some (max 0 (phaseDurationSeconds prefs c - (now - a) div 1000))\<rparr>) e)
                     \<lparr>remainingSeconds :=
                        max 0 (phaseDurationSeconds prefs c - (now - a) div 1000)\<rparr>)"
proof -
  let ?r = "max 0 (phaseDurationSeconds prefs c - (now - a) div 1000)"
  note u = recomputeRemaining_unfold [OF assms, of prefs sb now]
  have first: "remainingSeconds (recomputeRemaining prefs sb now c e) = ?r"
    unfolding u by simp
  have tickv: "remainingSeconds (intervalTick prefs sb now c e) = ?r"
    using assms by (simp add: intervalTick_remaining)
  have again: "recomputeRemaining prefs sb now c (recomputeRemaining prefs sb now c e) =
                 recomputeRemaining prefs sb now c e"
  proof (cases "?r = 0")
    case True
    then have "recomputeRemaining prefs sb now c e =
                 handlePhaseComplete prefs sb now c (e\<lparr>remainingSeconds := 0\<rparr>)"
      unfolding u by simp
    then show ?thesis by (simp add: recomputeRemaining_no_anchor)
  next
    case False
    then have v: "recomputeRemaining prefs sb now c e = e\<lparr>remainingSeconds := ?r\<rparr>"
      unfolding u by simp
    have "phaseStartEpochMs (e\<lparr>remainingSeconds := ?r\<rparr>) = Some a"
      using assms by simp
    from recomputeRemaining_unfold [OF assms(1) this assms(3), of prefs sb now] False
    have "recomputeRemaining prefs sb now c (e\<lparr>remainingSeconds := ?r\<rparr>) =
            e\<lparr>remainingSeconds := ?r\<rparr>"
      by simp
    then show ?thesis unfolding v .
  qed
  have tickeq: "intervalTick prefs sb now c e =
             (if ?r = 0
              then (persistState prefs c (\<lambda>s. s\<lparr>saved_remainingSeconds := Some 0\<rparr>)
                      (handlePhaseComplete prefs sb now c e))\<lparr>remainingSeconds := 0\<rparr>
              else (persistState prefs c (\<lambda>s. s\<lparr>saved_remainingSeconds := Some ?r\<rparr>) e)
                     \<lparr>remainingSeconds := ?r\<rparr>)"
    using assms by (simp add: intervalTick_def Let_def max_def)
  show ?thesis
    using first tickv again u tickeq by (intro conjI)
qed

theorem recompute_formula_witness:
  "isRunning startedTimer \<and> phaseStartEpochMs startedTimer = Some 1000000
   \<and> remainingSeconds (recomputeRemaining examplePrefs exampleSupabase 1900000
                         startedTimer startedTimer) = 600
   \<and> remainingSeconds (intervalTick examplePrefs exampleSupabase 1900000
                         startedTimer startedTimer) = 600
   \<and> recomputeRemaining examplePrefs exampleSupabase 2500000 startedTimer startedTimer =
       handlePhaseComplete examplePrefs exampleSupabase 2500000 startedTimer
         (startedTimer\<lparr>remainingSeconds := 0\<rparr>)"
proof -
  have r: "isRunning startedTimer" by code_simp
  have a: "phaseStartEpochMs startedTimer = Some 1000000" by code_simp
  have z: "(1000000::int) \<noteq> 0" by simp
  have d: "phaseDurationSeconds examplePrefs startedTimer = 1500" by code_simp
  show ?thesis
    using r a d
      recompute_formula_and_completion [OF r a z, of examplePrefs exampleSupabase 1900000]
      recompute_formula_and_completion [OF r a z, of examplePrefs exampleSupabase 2500000]
    by simp
qed

text \<open>
  Claim C4 as stated covers every running state with a non-null anchor. On a clock that
  starts at 0 the anchor of a phase started at once is \<open>0\<close>, which the guards
  \<^verbatim>\<open>isRunning && phaseStartEpochMsRef.current\<close> and \<^verbatim>\<open>phaseStartEpochMsRef.current || Date.now()\<close>
  read as absent: 2000 s later neither the visibility recompute nor the tick moves
  \<open>remainingSeconds\<close> off 1500, and the phase is not completed, while the formula gives 0.
\<close>

theorem recompute_skipped_at_anchor_zero:
  "isRunning zeroClockTimer = True \<and> phaseStartEpochMs zeroClockTimer = Some 0
   \<and> max 0 (phaseDurationSeconds examplePrefs zeroClockTimer - (2000000 - 0) div 1000) = 0
   \<and> remainingSeconds (recomputeRemaining examplePrefs exampleSupabase 2000000
                         zeroClockTimer zeroClockTimer) = 1500
   \<and> remainingSeconds (visibilityRegained examplePrefs exampleSupabase 2000000 zeroClockTimer)
       = 1500
   \<and> remainingSeconds (tick examplePrefs exampleSupabase 2000000 zeroClockTimer) = 1500
   \<and> isRunning (visibilityRegained examplePrefs exampleSupabase 2000000 zeroClockTimer) = True"
  by code_simp


subsection \<open>Configuration changes\<close>








subsection \<open>Phase completion\<close>

text \<open>
  The interval callback finds the countdown at zero, on a live timer that is running with
  its anchor set. \<open>c\<close> is the render the callback closes over, \<open>q\<close> its preferences: the
  transition follows that render's phase and count, the timer stops, the anchor is
  cleared, the count moves only if that render's phase is \<open>focus\<close>, and the effects of the
  next render put \<open>remainingSeconds\<close> at the full duration of the new phase.
\<close>

lemma intervalFires_completes:
  assumes "isRunning c" "isRunning e" "phaseStartEpochMs e = Some a" "a \<noteq> 0"
    and "phaseDurationSeconds q c - (now - a) div 1000 \<le> 0"
  shows "phase (intervalFires q c prefs sb now e) =
           (if phase c = focus
            then (if (completedFocusCount c + 1) mod sessionsUntilLongBreak q = 0
                  then longBreak else shortBreak)
            else focus)"
    and "completedFocusCount (intervalFires q c prefs sb now e) =
           (if phase c = focus then completedFocusCount e + 1 else completedFocusCount e)"
    and "isRunning (intervalFires q c prefs sb now e) = False"
    and "phaseStartEpochMs (intervalFires q c prefs sb now e) = None"
    and "remainingSeconds (intervalFires q c prefs sb now e) =
           phaseDurationSeconds prefs (intervalFires q c prefs sb now e)"
proof -
  let ?t = "intervalTick q sb now c e"
  let ?f = "intervalFires q c prefs sb now e"
  have same: "userId e = userId ?t" by simp
  have le: "phaseDurationSeconds q c
             - (now - (if truthy (phaseStartEpochMs e) then toNumber (phaseStartEpochMs e)
                       else now)) div 1000 \<le> 0"
    using assms by simp
  note k = intervalTick_completes [OF le, of sb]
  have t: "?f = runEffects sb now prefs e prefs ?t"
    using assms(1) by (simp add: intervalFires_def settle_eq_runEffects [OF same])
  have stop: "isRunning ?t = False" and none: "phaseStartEpochMs ?t = None"
    unfolding k by simp_all
  have ph: "phase ?t =
           (if phase c = focus
            then (if (completedFocusCount c + 1) mod sessionsUntilLongBreak q = 0
                  then longBreak else shortBreak)
            else focus)"
    unfolding k by (simp add: handlePhaseComplete_phase)
  have cnt: "completedFocusCount ?t =
           (if phase c = focus then completedFocusCount e + 1 else completedFocusCount e)"
    unfolding k by (simp add: handlePhaseComplete_count)
  show "phase ?f =
           (if phase c = focus
            then (if (completedFocusCount c + 1) mod sessionsUntilLongBreak q = 0
                  then longBreak else shortBreak)
            else focus)"
    unfolding t using ph by (simp add: runEffects_fields [OF same])
  show "completedFocusCount ?f =
           (if phase c = focus then completedFocusCount e + 1 else completedFocusCount e)"
    unfolding t using cnt by (simp add: runEffects_fields [OF same])
  show "isRunning ?f = False"
    unfolding t using stop by (simp add: runEffects_fields [OF same])
  show "phaseStartEpochMs ?f = None"
    unfolding t using stop none by (simp add: runEffects_anchor [OF same])
  have "phaseDurationSeconds prefs ?f = phaseDurationSeconds prefs ?t"
    unfolding t by (rule phaseDurationSeconds_cong) (simp_all add: runEffects_fields [OF same])
  then show "remainingSeconds ?f = phaseDurationSeconds prefs ?f"
    unfolding t using stop assms(2) by (simp add: runEffects_remaining [OF same])
qed

text \<open>
  Claim C5 says that every natural completion of a focus phase leads to the long break
  exactly when \<open>(completedFocusCount + 1) mod sessionsUntilLongBreak = 0\<close>. A signed-in
  user left a fourth focus phase running (three completed, cadence 4) and comes back
  after it has elapsed: the restore effect calls \<open>handlePhaseComplete\<close> of the render that
  runs it, whose \<open>completedFocusCount\<close> is still the initial \<open>0\<close>, so the short break is
  entered while the count goes to 4. The same completion seen by a tick of the running
  timer enters the long break.
\<close>

theorem restored_fourth_focus_enters_short_break:
  "sessionsUntilLongBreak examplePrefs = 4
   \<and> saved_phase (focusSnapshot 3) = focus
   \<and> (saved_completedFocusCount (focusSnapshot 3) + 1) mod sessionsUntilLongBreak examplePrefs = 0
   \<and> phase (coldStart examplePrefs exampleSupabase 5000000 (focusSnapshot 3)) = shortBreak
   \<and> completedFocusCount (coldStart examplePrefs exampleSupabase 5000000 (focusSnapshot 3)) = 4
   \<and> completedFocusCount fourthFocusRunning = 3
   \<and> phase (tick examplePrefs exampleSupabase 2500000 fourthFocusRunning) = longBreak"
  by code_simp

text \<open>
  Claim C6 says that \<open>completedFocusCount\<close> is changed by nothing but the natural
  completion of a focus phase, never by the completion of a break. A signed-in user left
  a short break running with one focus phase completed and comes back after it has
  elapsed: \<open>handlePhaseComplete\<close> of the render that runs the restore effect still sees the
  initial phase \<open>focus\<close>, so the count goes to 2, a focus session is recorded and the phase
  stays \<open>shortBreak\<close>. The same completion seen by a tick of the running timer returns to
  \<open>focus\<close> and leaves the count at 1.
\<close>

theorem restored_break_is_counted_as_focus:
  "saved_phase (breakSnapshot 1) = shortBreak
   \<and> saved_completedFocusCount (breakSnapshot 1) = 1
   \<and> completedFocusCount (coldStart examplePrefs exampleSupabase 5000000 (breakSnapshot 1)) = 2
   \<and> phase (coldStart examplePrefs exampleSupabase 5000000 (breakSnapshot 1)) = shortBreak
   \<and> sessionRecords (coldStart examplePrefs exampleSupabase 5000000 (breakSnapshot 1)) = 1
   \<and> phase breakRunning = shortBreak \<and> completedFocusCount breakRunning = 1
   \<and> phase (tick examplePrefs exampleSupabase 3000000 breakRunning) = focus
   \<and> completedFocusCount (tick examplePrefs exampleSupabase 3000000 breakRunning) = 1"
  by code_simp


subsection \<open>Restore on cold start\<close>

lemma orElse_zero [simp]: "orElse x 0 = x"
  by (simp add: orElse_def)


lemma restoreEffect_paused:
  assumes "localStorage e (stateKey c) = Some saved" "\<not> saved_isRunning saved"
  shows "remainingSeconds (restoreEffect prefs sb now c e) =
           (case saved_remainingSeconds saved of
              Some r \<Rightarrow> r | None \<Rightarrow> phaseDurationSeconds prefs c)"
    and "isRunning (restoreEffect prefs sb now c e) = False"
  using assms by (simp_all add: restoreEffect_def Let_def)















end
